theory Spec2Isabelle
  imports Complex_Main "HOL-Library.Sublist"
begin

section \<open>Trading Hydra: the safety-and-allocation control loop\<close>

text \<open>
  A shallow embedding of the core of the repository: \<open>core/risk.py\<close>, \<open>core/state.py\<close>,
  \<open>core/halt.py\<close>, \<open>core/health.py\<close>, \<open>services/exitbot.py\<close>, \<open>services/portfolio.py\<close>
  and the steps of \<open>orchestrator.py\<close>.

  Conventions of the model.
  \<^item> A Python \<open>float\<close> is a \<open>double\<close>: a finite value, an infinity or a NaN of IEEE 754
    binary64. Every arithmetic operation rounds its exact result to the nearest double,
    ties to even. Only the staleness of the health monitor, a difference of two
    timestamps, is kept as the exact number of seconds.
  \<^item> A point in time (\<open>datetime\<close>) is an \<open>int\<close>, the microseconds since the epoch; the
    clock is an argument \<open>now\<close> of every function that reads it.
  \<^item> The SQLite table of \<open>core/state.py\<close> is a map from keys to JSON values.
  \<^item> A raised exception is the \<open>Inl\<close> branch of a sum.
\<close>

subsection \<open>Text of numbers\<close>

definition digit :: "nat \<Rightarrow> char" where
  "digit n = ''0123456789'' ! n"

fun str_nat :: "nat \<Rightarrow> string" where
  "str_nat n = (if n < 10 then [digit n] else str_nat (n div 10) @ [digit (n mod 10)])"

declare str_nat.simps [simp del]

definition str_int :: "int \<Rightarrow> string" where
  "str_int i = (if i < 0 then CHR ''-'' # str_nat (nat (- i)) else str_nat (nat i))"

text \<open>
  The digits Python prints for a \<open>float\<close> depend on its binary representation, so the
  conversion of a float to text is an argument of the model: \<open>Str\<close> is \<open>str(x)\<close>
  (what an f-string does with \<open>{x}\<close>) and \<open>Fixed d\<close> is the format \<open>{x:.df}\<close>.
\<close>

datatype fspec = Str | Fixed nat

type_synonym float_text = "fspec \<Rightarrow> real \<Rightarrow> string"

subsection \<open>Python floats\<close>

text \<open>
  A \<open>float\<close> of Python is an IEEE 754 binary64 number. \<open>Num x\<close> is the finite double of
  value \<open>x\<close>; the two zeros, which no comparison tells apart, are both \<open>Num 0\<close>. The values
  that enter the program (an equity the brokerage reports, a number of the configuration)
  are doubles; an integer of the configuration is the double Python converts it to.
\<close>

datatype double = Num real | PInf | NInf | NaN

instantiation double :: zero
begin

definition zero_double :: double where
  "zero_double = Num 0"

instance ..

end

text \<open>
  Rounding to the nearest double. \<open>exponent x\<close> is the binary exponent of a positive \<open>x\<close>,
  searched upwards from 0 for at most 1023 steps and downwards for at most 1022, the
  range of the normal numbers: below it the exponent stays at -1022, which is the
  spacing of the subnormal numbers. A double has 53 significant bits, so the doubles
  near \<open>x\<close> are the multiples of \<open>2 ^ (exponent x - 52)\<close>, and \<open>round64\<close> takes the nearest
  multiple, the even one of two that are equally near. A result of magnitude \<open>2 ^ 1024\<close>
  or more is an infinity.
\<close>

definition pow2 :: "int \<Rightarrow> real" where
  "pow2 e = (if 0 \<le> e then 2 ^ nat e else 1 / 2 ^ nat (- e))"

fun up :: "nat \<Rightarrow> real \<Rightarrow> int" where
  "up 0 x = 0"
| "up (Suc n) x = (if x < 2 then 0 else 1 + up n (x / 2))"

fun down :: "nat \<Rightarrow> real \<Rightarrow> int" where
  "down 0 x = 0"
| "down (Suc n) x = (if 1 \<le> x then 0 else down n (2 * x) - 1)"

definition exponent :: "real \<Rightarrow> int" where
  "exponent x = (if 1 \<le> x then up 1023 x else down 1022 x)"

definition round_half_even :: "real \<Rightarrow> int" where
  "round_half_even y =
     (let f = \<lfloor>y\<rfloor> in
      if y - of_int f < 1 / 2 then f
      else if 1 / 2 < y - of_int f then f + 1
      else if even f then f else f + 1)"

definition overflow :: real where
  "overflow = 2 ^ 1024"

definition round64 :: "real \<Rightarrow> double" where
  "round64 x =
     (if x = 0 then Num 0
      else let ulp = pow2 (exponent \<bar>x\<bar> - 52);
               r = of_int (round_half_even (x / ulp)) * ulp
           in if overflow \<le> r then PInf else if r \<le> - overflow then NInf else Num r)"

text \<open>
  The operations of Python on floats that the core uses. An infinity times or over a
  number takes the sign of the number, and the combinations without a value are NaN. A
  division by zero raises \<open>ZeroDivisionError\<close> in Python; the core divides only by the
  literal 100, by a base it has compared with 0 before, and by a count that is at least
  1, so \<open>ddiv\<close> is never called with a zero divisor, where it is NaN here.
\<close>

definition signed_inf :: "real \<Rightarrow> double" where
  "signed_inf x = (if 0 < x then PInf else if x < 0 then NInf else NaN)"

fun dneg :: "double \<Rightarrow> double" where
  "dneg (Num x) = Num (- x)"
| "dneg PInf = NInf"
| "dneg NInf = PInf"
| "dneg NaN = NaN"

fun dmul :: "double \<Rightarrow> double \<Rightarrow> double" where
  "dmul (Num x) (Num y) = round64 (x * y)"
| "dmul NaN y = NaN"
| "dmul x NaN = NaN"
| "dmul (Num x) PInf = signed_inf x"
| "dmul (Num x) NInf = signed_inf (- x)"
| "dmul PInf (Num y) = signed_inf y"
| "dmul NInf (Num y) = signed_inf (- y)"
| "dmul PInf PInf = PInf"
| "dmul PInf NInf = NInf"
| "dmul NInf PInf = NInf"
| "dmul NInf NInf = PInf"

fun ddiv :: "double \<Rightarrow> double \<Rightarrow> double" where
  "ddiv (Num x) (Num y) = (if y = 0 then NaN else round64 (x / y))"
| "ddiv NaN y = NaN"
| "ddiv x NaN = NaN"
| "ddiv (Num x) PInf = Num 0"
| "ddiv (Num x) NInf = Num 0"
| "ddiv PInf (Num y) = signed_inf y"
| "ddiv NInf (Num y) = signed_inf (- y)"
| "ddiv PInf PInf = NaN"
| "ddiv PInf NInf = NaN"
| "ddiv NInf PInf = NaN"
| "ddiv NInf NInf = NaN"

fun dsub :: "double \<Rightarrow> double \<Rightarrow> double" where
  "dsub (Num x) (Num y) = round64 (x - y)"
| "dsub NaN y = NaN"
| "dsub x NaN = NaN"
| "dsub PInf PInf = NaN"
| "dsub NInf NInf = NaN"
| "dsub PInf y = PInf"
| "dsub NInf y = NInf"
| "dsub (Num x) PInf = NInf"
| "dsub (Num x) NInf = PInf"

text \<open>The comparisons \<open><=\<close> and \<open><\<close>: false whenever a NaN is compared.\<close>

fun dle :: "double \<Rightarrow> double \<Rightarrow> bool" where
  "dle NaN y = False"
| "dle x NaN = False"
| "dle NInf y = True"
| "dle x PInf = True"
| "dle (Num x) (Num y) = (x \<le> y)"
| "dle PInf y = False"
| "dle (Num x) NInf = False"

fun dlt :: "double \<Rightarrow> double \<Rightarrow> bool" where
  "dlt NaN y = False"
| "dlt x NaN = False"
| "dlt (Num x) (Num y) = (x < y)"
| "dlt NInf NInf = False"
| "dlt NInf y = True"
| "dlt PInf y = False"
| "dlt (Num x) PInf = True"
| "dlt (Num x) NInf = False"

text \<open>
  The built-ins \<open>max(a, b)\<close> and \<open>min(a, b)\<close> keep their first argument unless the second
  is greater, respectively less.
\<close>

definition pymax :: "double \<Rightarrow> double \<Rightarrow> double" where
  "pymax a b = (if dlt a b then b else a)"

definition pymin :: "double \<Rightarrow> double \<Rightarrow> double" where
  "pymin a b = (if dlt b a then b else a)"

text \<open>The text of a float: \<open>ft\<close> gives the digits of a finite one.\<close>

definition float_str :: "float_text \<Rightarrow> fspec \<Rightarrow> double \<Rightarrow> string" where
  "float_str ft spec d =
     (case d of Num x \<Rightarrow> ft spec x | PInf \<Rightarrow> ''inf'' | NInf \<Rightarrow> ''-inf'' | NaN \<Rightarrow> ''nan'')"


subsection \<open>core/risk.py\<close>

definition dollars_from_pct :: "double \<Rightarrow> double \<Rightarrow> double" where
  "dollars_from_pct base_amount pct = dmul base_amount (ddiv pct (Num 100))"

definition pct_from_dollars :: "double \<Rightarrow> double \<Rightarrow> double" where
  "pct_from_dollars base_amount dollars =
     (if base_amount = Num 0 then Num 0 else dmul (ddiv dollars base_amount) (Num 100))"

subsection \<open>core/state.py\<close>

text \<open>
  The values of the table are JSON documents. \<open>VTime t\<close> is the text that
  \<open>datetime.isoformat() + "Z"\<close> writes for the instant \<open>t\<close>, which
  \<open>datetime.fromisoformat\<close> reads back to the same instant; \<open>VStr\<close> is any other text.
  A key that is absent reads as Python's \<open>None\<close>, here \<open>None\<close>.
\<close>

datatype val = VBool bool | VInt int | VNum double | VStr string | VTime int

type_synonym store = "string \<rightharpoonup> val"

definition get_state :: "store \<Rightarrow> string \<Rightarrow> val option" where
  "get_state s key = s key"

definition set_state :: "string \<Rightarrow> val \<Rightarrow> store \<Rightarrow> store" where
  "set_state key v s = s(key \<mapsto> v)"

definition delete_state :: "string \<Rightarrow> store \<Rightarrow> store" where
  "delete_state key s = s(key := None)"

text \<open>Python's truth value of what \<open>get_state\<close> returns.\<close>

fun truthy :: "val option \<Rightarrow> bool" where
  "truthy None = False"
| "truthy (Some (VBool b)) = b"
| "truthy (Some (VInt n)) = (n \<noteq> 0)"
| "truthy (Some (VNum d)) = (d \<noteq> Num 0)"
| "truthy (Some (VStr t)) = (t \<noteq> [])"
| "truthy (Some (VTime t)) = True"

text \<open>
  Typed reads. The keys read as numbers hold only what the code writes there (a number);
  anything else reads as the falsy default.
\<close>

fun int_of_val :: "val option \<Rightarrow> int" where
  "int_of_val (Some (VInt n)) = n"
| "int_of_val _ = 0"

fun num_of_val :: "val option \<Rightarrow> double" where
  "num_of_val (Some (VNum d)) = d"
| "num_of_val (Some (VInt n)) = Num (of_int n)"
| "num_of_val _ = Num 0"

fun str_of_val :: "val option \<Rightarrow> string" where
  "str_of_val (Some (VStr t)) = t"
| "str_of_val _ = []"

text \<open>\<open>d.get(key, default)\<close> on a configuration dictionary.\<close>

fun get_or :: "'a \<Rightarrow> 'a option \<Rightarrow> 'a" where
  "get_or d None = d"
| "get_or d (Some v) = v"

subsection \<open>Configuration (core/config.py)\<close>

text \<open>
  The two YAML documents, with every key the core reads; a key that is missing is
  \<open>None\<close> and takes the default of the \<open>.get\<close> that reads it. Loading may raise: the
  loaded configuration is \<open>Inl\<close> the text of the exception or \<open>Inr\<close> the two documents.
\<close>

record bot_cfg =
  bot_id :: "string option"
  enabled :: "bool option"
  max_trades_per_day :: "int option"
  max_concurrent_positions :: "int option"

record bots_config =
  exitbot_enabled :: "bool option"
  api_failure_halt :: "bool option"
  max_daily_loss_halt :: "bool option"
  cooloff_minutes :: "int option"
  portfoliobot_enabled :: "bool option"
  momentum_bucket_pct_of_daily_risk :: "double option"
  options_bucket_pct_of_daily_risk :: "double option"
  crypto_bucket_pct_of_daily_risk :: "double option"
  per_bot_min_pct_of_daily_risk :: "double option"
  per_bot_max_pct_of_daily_risk :: "double option"
  momentum_bots :: "bot_cfg list"
  optionsbot :: bot_cfg
  cryptobot :: bot_cfg

record settings =
  global_max_daily_loss_pct :: "double option"
  max_api_failures_in_window :: "int option"
  max_price_staleness_seconds :: "real option"

type_synonym loaded = "string + bots_config \<times> settings"

subsection \<open>core/halt.py\<close>

record HaltStatus =
  active :: bool
  status_reason :: string
  halted_at :: "val option"
  expires_at :: "val option"

definition set_halt :: "int \<Rightarrow> string \<Rightarrow> int \<Rightarrow> store \<Rightarrow> store" where
  "set_halt now rsn cooloff s =
     (let expires = now + cooloff * 60000000;
          s1 = set_state ''halt.active'' (VBool True) s;
          s2 = set_state ''halt.reason'' (VStr rsn) s1;
          s3 = set_state ''halt.halted_at'' (VTime now) s2
      in set_state ''halt.expires_at'' (VTime expires) s3)"

definition clear_halt :: "store \<Rightarrow> store" where
  "clear_halt s =
     delete_state ''halt.expires_at''
       (delete_state ''halt.halted_at''
         (delete_state ''halt.reason''
           (delete_state ''halt.active'' s)))"

text \<open>
  \<open>clear_if_expired\<close>: a falsy \<open>halt.expires_at\<close> returns \<open>False\<close> at once; a text that
  \<open>fromisoformat\<close> rejects raises inside the \<open>try\<close>, is swallowed by the bare
  \<open>except\<close>, and returns \<open>False\<close> as well. The comparison is the source's strict \<open>>\<close>.
\<close>

definition clear_if_expired :: "int \<Rightarrow> store \<Rightarrow> bool \<times> store" where
  "clear_if_expired now s =
     (case get_state s ''halt.expires_at'' of
        Some (VTime expires) \<Rightarrow> if now > expires then (True, clear_halt s) else (False, s)
      | _ \<Rightarrow> (False, s))"

definition is_halted :: "int \<Rightarrow> store \<Rightarrow> bool \<times> store" where
  "is_halted now s =
     (let s' = snd (clear_if_expired now s) in (truthy (get_state s' ''halt.active''), s'))"

definition get_status :: "store \<Rightarrow> HaltStatus" where
  "get_status s =
     \<lparr> active = truthy (get_state s ''halt.active''),
       status_reason = str_of_val (get_state s ''halt.reason''),
       halted_at = get_state s ''halt.halted_at'',
       expires_at = get_state s ''halt.expires_at'' \<rparr>"

text \<open>The four keys of a halt record.\<close>

definition halt_keys :: "string list" where
  "halt_keys = [''halt.active'', ''halt.reason'', ''halt.halted_at'', ''halt.expires_at'']"

definition no_halt_keys :: "store \<Rightarrow> bool" where
  "no_halt_keys s = list_all (\<lambda>k. s k = None) halt_keys"

subsection \<open>core/health.py\<close>

record HealthSnapshot =
  ok :: bool
  reason :: string
  api_failures :: int
  last_price_tick :: "val option"
  stale_seconds :: real

definition record_api_failure :: "int \<Rightarrow> store \<Rightarrow> store" where
  "record_api_failure now s =
     (let count = int_of_val (get_state s ''health.api_failure_count'')
      in set_state ''health.last_api_failure'' (VTime now)
           (set_state ''health.api_failure_count'' (VInt (count + 1)) s))"

definition record_price_tick :: "int \<Rightarrow> store \<Rightarrow> store" where
  "record_price_tick now s =
     set_state ''health.api_failure_count'' (VInt 0)
       (set_state ''health.last_price_tick'' (VTime now) s)"

definition get_snapshot :: "float_text \<Rightarrow> settings \<Rightarrow> int \<Rightarrow> store \<Rightarrow> HealthSnapshot" where
  "get_snapshot ft cfg now s =
     (let max_failures = get_or 5 (max_api_failures_in_window cfg);
          stale_threshold = get_or 15 (max_price_staleness_seconds cfg);
          failures = int_of_val (get_state s ''health.api_failure_count'');
          last_tick_str = get_state s ''health.last_price_tick'';
          stale = (case last_tick_str of
                     Some (VTime last_tick) \<Rightarrow> real_of_int (now - last_tick) / 1000000
                   | _ \<Rightarrow> 0)
      in if failures \<ge> max_failures then
           \<lparr> ok = False,
             reason = ''API failures ('' @ str_int failures @ '') >= max (''
                        @ str_int max_failures @ '')'',
             api_failures = failures, last_price_tick = last_tick_str, stale_seconds = stale \<rparr>
         else if truthy last_tick_str \<and> stale > stale_threshold then
           \<lparr> ok = False,
             reason = ''Data stale ('' @ ft (Fixed 0) stale @ ''s > ''
                        @ ft Str stale_threshold @ ''s)'',
             api_failures = failures, last_price_tick = last_tick_str, stale_seconds = stale \<rparr>
         else
           \<lparr> ok = True, reason = ''OK'',
             api_failures = failures, last_price_tick = last_tick_str, stale_seconds = stale \<rparr>)"

subsection \<open>The brokerage collaborator (services/alpaca_client.py)\<close>

text \<open>
  Every request of the client stamps the health keys of the store: a response records a
  price tick, a failed request records an API failure. A call of the collaborator is
  therefore its result together with the health events it recorded, in order.
\<close>

datatype health_event = Tick int | Failure int

fun apply_event :: "health_event \<Rightarrow> store \<Rightarrow> store" where
  "apply_event (Tick t) s = record_price_tick t s"
| "apply_event (Failure t) s = record_api_failure t s"

definition apply_events :: "health_event list \<Rightarrow> store \<Rightarrow> store" where
  "apply_events evs s = fold apply_event evs s"

text \<open>\<open>flatten()\<close> returns \<open>{"success": True}\<close> or \<open>{"success": False, "error": e}\<close>.\<close>

datatype flatten_result = FlattenOk | FlattenFailed string

text \<open>\<open>get_account()\<close> raises, or returns an account with its equity and status.\<close>

datatype account_outcome = Raises string | Account double string

subsection \<open>services/exitbot.py\<close>

record ExitBotResult =
  should_continue :: bool
  result_is_halted :: bool
  halt_reason :: string
  result_equity :: double
  pnl :: double

text \<open>
  \<open>ExitBot.run\<close>. The arguments beside \<open>equity\<close> and \<open>day_start_equity\<close> are what the
  run reads from its surroundings: the loaded configuration, whether the brokerage has
  credentials, what \<open>flatten()\<close> would answer, the clock (one run is one instant) and
  the store. The result is the \<open>ExitBotResult\<close> and the store the run leaves.
\<close>

definition halted_result :: "string \<Rightarrow> double \<Rightarrow> double \<Rightarrow> ExitBotResult" where
  "halted_result rsn eq p =
     \<lparr> should_continue = False, result_is_halted = True, halt_reason = rsn,
       result_equity = eq, pnl = p \<rparr>"

definition continue_result :: "double \<Rightarrow> double \<Rightarrow> ExitBotResult" where
  "continue_result eq p =
     \<lparr> should_continue = True, result_is_halted = False, halt_reason = [],
       result_equity = eq, pnl = p \<rparr>"

definition exitbot_run ::
  "float_text \<Rightarrow> loaded \<Rightarrow> bool \<Rightarrow> flatten_result \<times> health_event list \<Rightarrow> int \<Rightarrow>
   double \<Rightarrow> double \<Rightarrow> store \<Rightarrow> ExitBotResult \<times> store" where
  "exitbot_run ft cfg has_credentials flatten now equity day_start_equity s =
     (case cfg of
        Inl e \<Rightarrow> (halted_result (''Config load failed: '' @ e) equity 0, s)
      | Inr (config, setts) \<Rightarrow>
          if \<not> get_or True (exitbot_enabled config) then
            (continue_result equity (dsub equity day_start_equity), s)
          else
            let (halted, s1) = is_halted now s in
            if halted then
              (halted_result (status_reason (get_status s1)) equity 0, s1)
            else
              let health = get_snapshot ft setts now s1;
                  cooloff = get_or 60 (cooloff_minutes config)
              in
              if \<not> ok health \<and> get_or True (api_failure_halt config) then
                let rsn = ''HEALTH_FAIL: '' @ reason health;
                    s2 = set_halt now rsn cooloff s1
                in
                if has_credentials then
                  (case fst flatten of
                     FlattenOk \<Rightarrow>
                       (halted_result rsn equity 0, apply_events (snd flatten) s2)
                   | FlattenFailed err \<Rightarrow>
                       (halted_result (rsn @ '' + FLATTEN_FAILED: '' @ err) equity 0,
                        apply_events (snd flatten) s2))
                else (halted_result rsn equity 0, s2)
              else
                let p = dsub equity day_start_equity;
                    max_loss_pct = get_or (Num 1) (global_max_daily_loss_pct setts);
                    max_loss = dollars_from_pct day_start_equity max_loss_pct
                in
                if dle p (dneg max_loss) \<and> get_or True (max_daily_loss_halt config) then
                  let rsn = ''MAX_DAILY_LOSS: pnl='' @ float_str ft (Fixed 2) p @ '' <= -''
                              @ float_str ft (Fixed 2) max_loss;
                      s2 = set_halt now rsn cooloff s1
                  in
                  if has_credentials then
                    (case fst flatten of
                       FlattenOk \<Rightarrow>
                         (halted_result rsn equity p, apply_events (snd flatten) s2)
                     | FlattenFailed err \<Rightarrow>
                         (halted_result (rsn @ '' + FLATTEN_FAILED: '' @ err) equity p,
                          apply_events (snd flatten) s2))
                  else
                    (halted_result (rsn @ '' + CANNOT_FLATTEN: no credentials'') equity p, s2)
                else (continue_result equity p, s1))"

subsection \<open>services/portfolio.py\<close>

record PortfolioBotResult =
  budgets_set :: bool
  daily_risk :: double
  enabled_bots :: "string list"
  error :: string

definition budget_key :: "string \<Rightarrow> string \<Rightarrow> string" where
  "budget_key bid field = ''budgets.'' @ bid @ ''.'' @ field"

definition bots_key :: "string \<Rightarrow> string \<Rightarrow> string" where
  "bots_key bid field = ''bots.'' @ bid @ ''.'' @ field"

text \<open>The six writes the allocator makes for one worker.\<close>

definition write_budget ::
  "string \<Rightarrow> double \<Rightarrow> int \<Rightarrow> int \<Rightarrow> bool \<Rightarrow> store \<Rightarrow> store" where
  "write_budget bid amount trades positions en s =
     set_state (bots_key bid ''enabled'') (VBool en)
       (set_state (bots_key bid ''allowed'') (VBool True)
         (set_state (budget_key bid ''max_concurrent_positions'') (VInt positions)
           (set_state (budget_key bid ''max_trades_per_day'') (VInt trades)
             (set_state (budget_key bid ''max_open_risk'') (VNum (dmul amount (Num 2)))
               (set_state (budget_key bid ''max_daily_loss'') (VNum amount) s)))))"

text \<open>The body of the loop over \<open>momentum_bots\<close>, and the loop.\<close>

definition write_momentum :: "double \<Rightarrow> bot_cfg \<Rightarrow> store \<Rightarrow> store" where
  "write_momentum amount b s =
     write_budget (get_or [] (bot_id b)) amount
       (get_or 5 (max_trades_per_day b)) (get_or 2 (max_concurrent_positions b))
       (get_or False (enabled b)) s"

definition momentum_loop :: "double \<Rightarrow> bot_cfg list \<Rightarrow> store \<Rightarrow> store" where
  "momentum_loop amount bots s = fold (write_momentum amount) bots s"

definition enabled_momentum :: "bots_config \<Rightarrow> bot_cfg list" where
  "enabled_momentum config = filter (\<lambda>b. get_or False (enabled b)) (momentum_bots config)"

text \<open>The amounts \<open>run\<close> computes before it writes anything.\<close>

definition day_start_of :: "double \<Rightarrow> store \<Rightarrow> double" where
  "day_start_of equity s =
     (let v = get_state s ''day_start_equity'' in if truthy v then num_of_val v else equity)"

definition daily_risk_of :: "settings \<Rightarrow> double \<Rightarrow> store \<Rightarrow> double" where
  "daily_risk_of setts equity s =
     dollars_from_pct (day_start_of equity s)
       (get_or (Num 1) (global_max_daily_loss_pct setts))"

definition mom_bucket :: "bots_config \<Rightarrow> double \<Rightarrow> double" where
  "mom_bucket config risk =
     dmul risk (ddiv (get_or (Num 50) (momentum_bucket_pct_of_daily_risk config)) (Num 100))"

definition opt_bucket :: "bots_config \<Rightarrow> double \<Rightarrow> double" where
  "opt_bucket config risk =
     dmul risk (ddiv (get_or (Num 50) (options_bucket_pct_of_daily_risk config)) (Num 100))"

definition cry_bucket :: "bots_config \<Rightarrow> double \<Rightarrow> double" where
  "cry_bucket config risk =
     dmul risk (ddiv (get_or (Num 25) (crypto_bucket_pct_of_daily_risk config)) (Num 100))"

definition per_min :: "bots_config \<Rightarrow> double \<Rightarrow> double" where
  "per_min config risk =
     dmul risk (ddiv (get_or (Num 10) (per_bot_min_pct_of_daily_risk config)) (Num 100))"

definition per_max :: "bots_config \<Rightarrow> double \<Rightarrow> double" where
  "per_max config risk =
     dmul risk (ddiv (get_or (Num 50) (per_bot_max_pct_of_daily_risk config)) (Num 100))"

definition num_mom :: "bots_config \<Rightarrow> nat" where
  "num_mom config = max 1 (length (enabled_momentum config))"

definition mom_each :: "bots_config \<Rightarrow> double \<Rightarrow> double" where
  "mom_each config risk =
     pymax (per_min config risk)
       (pymin (per_max config risk)
          (ddiv (mom_bucket config risk) (Num (real (num_mom config)))))"

definition write_options :: "bots_config \<Rightarrow> double \<Rightarrow> store \<Rightarrow> store" where
  "write_options config risk s =
     (let b = optionsbot config in
      if get_or False (enabled b) then
        write_budget (get_or ''opt_core'' (bot_id b)) (opt_bucket config risk)
          (get_or 3 (max_trades_per_day b)) (get_or 2 (max_concurrent_positions b)) True s
      else s)"

definition write_crypto :: "bots_config \<Rightarrow> double \<Rightarrow> store \<Rightarrow> store" where
  "write_crypto config risk s =
     (let b = cryptobot config in
      if get_or False (enabled b) then
        write_budget (get_or ''crypto_core'' (bot_id b)) (cry_bucket config risk)
          (get_or 5 (max_trades_per_day b)) (get_or 3 (max_concurrent_positions b)) True s
      else s)"

definition enabled_ids :: "bots_config \<Rightarrow> string list" where
  "enabled_ids config =
     map (\<lambda>b. get_or [] (bot_id b)) (enabled_momentum config)
     @ (if get_or False (enabled (optionsbot config))
        then [get_or ''opt_core'' (bot_id (optionsbot config))] else [])
     @ (if get_or False (enabled (cryptobot config))
        then [get_or ''crypto_core'' (bot_id (cryptobot config))] else [])"

definition portfolio_run :: "loaded \<Rightarrow> double \<Rightarrow> store \<Rightarrow> PortfolioBotResult \<times> store" where
  "portfolio_run cfg equity s =
     (case cfg of
        Inl e \<Rightarrow> (\<lparr> budgets_set = False, daily_risk = 0, enabled_bots = [], error = e \<rparr>, s)
      | Inr (config, setts) \<Rightarrow>
          if \<not> get_or True (portfoliobot_enabled config) then
            (\<lparr> budgets_set = False, daily_risk = 0, enabled_bots = [], error = [] \<rparr>, s)
          else
            let risk = daily_risk_of setts equity s;
                s1 = momentum_loop (mom_each config risk) (momentum_bots config) s;
                s2 = write_options config risk s1;
                s3 = write_crypto config risk s2
            in (\<lparr> budgets_set = True, daily_risk = risk,
                  enabled_bots = enabled_ids config, error = [] \<rparr>, s3))"




subsection \<open>orchestrator.py: step 1\<close>

text \<open>
  The result tuple \<open>(init_ok, equity, day_start_equity, init_error)\<close> of
  \<open>_step_initialize\<close>, and a log of what the retry loop did: how often it called
  \<open>get_account\<close> and the seconds it slept, in order.
\<close>

record InitResult =
  init_ok :: bool
  init_equity :: double
  init_day_start :: double
  init_error :: string

record fetch_log =
  attempts :: nat
  waits :: "nat list"

datatype py_error = UnboundLocalError

datatype fetched = Fetched double string | Rejected string | Ran_out

definition max_retries :: nat where
  "max_retries = 3"

text \<open>
  The \<open>for attempt in range(max_retries)\<close> loop, over the attempts that remain.
  \<open>get_account k\<close> is what the \<open>k\<close>-th call of the brokerage answers. \<open>Fetched\<close> is the
  \<open>break\<close>, \<open>Rejected\<close> a \<open>return False, 0.0, 0.0, error\<close>, and \<open>Ran_out\<close> the end of the
  range, after which the source would read an \<open>equity\<close> that was never bound.
\<close>

fun fetch_loop ::
  "float_text \<Rightarrow> (nat \<Rightarrow> account_outcome \<times> health_event list) \<Rightarrow> nat list \<Rightarrow>
   fetch_log \<Rightarrow> store \<Rightarrow> fetched \<times> fetch_log \<times> store" where
  "fetch_loop ft get_account [] lg s = (Ran_out, lg, s)"
| "fetch_loop ft get_account (attempt # rest) lg s =
     (let lg1 = lg\<lparr>attempts := attempts lg + 1\<rparr>;
          s1 = apply_events (snd (get_account (attempts lg))) s
      in case fst (get_account (attempts lg)) of
           Account equity st \<Rightarrow>
             if dle equity (Num 0) then
               (Rejected (''Invalid account equity: '' @ float_str ft Str equity), lg1, s1)
             else (Fetched equity st, lg1, s1)
         | Raises e \<Rightarrow>
             let err = ''Failed to fetch account (attempt '' @ str_nat (attempt + 1) @ ''): '' @ e
             in if attempt < max_retries - 1 then
                  fetch_loop ft get_account rest (lg1\<lparr>waits := waits lg1 @ [2 ^ attempt]\<rparr>) s1
                else (Rejected err, lg1, s1))"

text \<open>The literal \<open>0.1\<close> is the double nearest to one tenth.\<close>

definition tenth :: double where
  "tenth = round64 (1 / 10)"

definition failed_init :: "string \<Rightarrow> InitResult" where
  "failed_init err = \<lparr> init_ok = False, init_equity = 0, init_day_start = 0, init_error = err \<rparr>"

definition step_initialize ::
  "float_text \<Rightarrow> bool \<Rightarrow> (nat \<Rightarrow> account_outcome \<times> health_event list) \<Rightarrow> string \<Rightarrow> int \<Rightarrow>
   store \<Rightarrow> (py_error + InitResult) \<times> fetch_log \<times> store" where
  "step_initialize ft has_credentials get_account date_string now s =
     (let lg0 = \<lparr> attempts = 0, waits = [] \<rparr> in
      if \<not> has_credentials then
        (Inr (failed_init ''ALPACA_KEY and ALPACA_SECRET required''), lg0,
         record_api_failure now s)
      else
        case fetch_loop ft get_account [0..<max_retries] lg0 s of
          (Ran_out, lg, s1) \<Rightarrow> (Inl UnboundLocalError, lg, s1)
        | (Rejected err, lg, s1) \<Rightarrow> (Inr (failed_init err), lg, s1)
        | (Fetched equity st, lg, s1) \<Rightarrow>
            let day_start_key = ''day_start_equity_'' @ date_string;
                v = get_state s1 day_start_key;
                reset = set_state ''day_start_equity'' (VNum equity)
                          (set_state day_start_key (VNum equity) s1);
                (day_start, s2) =
                  (if \<not> truthy v \<or> dlt (num_of_val v) (Num 1000) then (equity, reset)
                   else if dlt (num_of_val v) (dmul equity tenth) then (equity, reset)
                   else (num_of_val v, s1));
                s3 = snd (clear_if_expired now s2)
            in (Inr \<lparr> init_ok = True, init_equity = equity, init_day_start = day_start,
                      init_error = [] \<rparr>, lg, s3))"

subsection \<open>orchestrator.py: step 5\<close>

record LoopResult =
  success :: bool
  status :: string
  summary :: string
  timestamp :: string

text \<open>\<open>str.lower\<close> on the ASCII letters, \<open>sub in text\<close>, and \<open>sep.join\<close>.\<close>

definition lower_char :: "char \<Rightarrow> char" where
  "lower_char c =
     (case map_of (zip ''ABCDEFGHIJKLMNOPQRSTUVWXYZ'' ''abcdefghijklmnopqrstuvwxyz'') c of
        Some l \<Rightarrow> l
      | None \<Rightarrow> c)"

definition lower :: "string \<Rightarrow> string" where
  "lower t = map lower_char t"

fun py_in :: "string \<Rightarrow> string \<Rightarrow> bool" where
  "py_in sub [] = (sub = [])"
| "py_in sub (c # cs) = (prefix sub (c # cs) \<or> py_in sub cs)"

fun join :: "string \<Rightarrow> string list \<Rightarrow> string" where
  "join sep [] = []"
| "join sep [x] = x"
| "join sep (x # y # ys) = x @ sep @ join sep (y # ys)"

definition is_init_error :: "string list \<Rightarrow> bool" where
  "is_init_error errors =
     list_ex (\<lambda>e. py_in ''credentials'' (lower e) \<or> py_in ''init'' (lower e)
                  \<or> py_in ''budgets'' (lower e)) errors"

text \<open>
  \<open>_step_finalize\<close>. \<open>isoformat\<close> is \<open>datetime.isoformat\<close>; the call of \<open>is_halted\<close> may clear an
  expired halt, so the step returns the store as well.
\<close>

definition step_finalize ::
  "(int \<Rightarrow> string) \<Rightarrow> int \<Rightarrow> string list \<Rightarrow> string list \<Rightarrow> string \<Rightarrow> store \<Rightarrow>
   LoopResult \<times> store" where
  "step_finalize isoformat now bots_run errors rsn s =
     (let stamp = isoformat now @ ''Z'';
          (halted, s1) = is_halted now s;
          has_errors = length errors > 0;
          bots_ran = length bots_run > 0;
          (st, ok_flag) =
            (if halted then (''HALTED: '' @ rsn, True)
             else if has_errors \<and> \<not> bots_ran then
               (if is_init_error errors
                then (''FAIL_CLOSED: System failed safely without trading'', True)
                else (''ERROR: '' @ join ''; '' errors, False))
             else if \<not> bots_ran then (''SKIPPED: No bots ran'', True)
             else if has_errors then
               (''PARTIAL: '' @ str_nat (length bots_run) @ '' bots with ''
                  @ str_nat (length errors) @ '' errors'', False)
             else (''OK: '' @ str_nat (length bots_run) @ '' bots ran successfully'', True));
          body = ''Trading Loop Summary:'' @ [CHR 0x0A] @ ''- Status: '' @ st @ [CHR 0x0A]
                 @ ''- Bots run: '' @ (if bots_run \<noteq> [] then join '', '' bots_run else ''None'')
                 @ [CHR 0x0A]
                 @ ''- Errors: '' @ (if errors \<noteq> [] then join ''; '' errors else ''None'')
                 @ [CHR 0x0A] @ ''- Timestamp: '' @ stamp
      in (\<lparr> success = ok_flag, status = st, summary = body, timestamp = stamp \<rparr>, s1))"

text \<open>The label of a status is its text before the colon.\<close>

definition status_label :: "string \<Rightarrow> string" where
  "status_label st = takeWhile (\<lambda>c. c \<noteq> CHR '':'') st"

subsection \<open>orchestrator.py: the loop\<close>

text \<open>
  \<open>run_loop\<close>, the five steps in order. The execution service is a collaborator: \<open>execute\<close>
  is what it answers for the enabled workers, the equity and the store, namely the
  workers that ran, its errors, and the store it leaves. An exception of step 1 leaves
  the loop as it is raised.
\<close>

type_synonym execution =
  "string list \<Rightarrow> double \<Rightarrow> store \<Rightarrow> (string list \<times> string list) \<times> store"

definition run_loop ::
  "float_text \<Rightarrow> loaded \<Rightarrow> bool \<Rightarrow> (nat \<Rightarrow> account_outcome \<times> health_event list) \<Rightarrow>
   flatten_result \<times> health_event list \<Rightarrow> execution \<Rightarrow> string \<Rightarrow> (int \<Rightarrow> string) \<Rightarrow> int \<Rightarrow>
   store \<Rightarrow> (py_error + LoopResult) \<times> store" where
  "run_loop ft cfg has_credentials get_account flatten execute date_string isoformat now s =
     (case step_initialize ft has_credentials get_account date_string now s of
        (Inl raised, lg, s1) \<Rightarrow> (Inl raised, s1)
      | (Inr init, lg, s1) \<Rightarrow>
          let equity = init_equity init;
              errors1 = (if \<not> init_ok init then [init_error init] else []);
              (continue, halt_rsn, errors2, s2) =
                (if init_ok init then
                   let (exit_result, sx) =
                         exitbot_run ft cfg has_credentials flatten now equity
                           (init_day_start init) s1
                   in (should_continue exit_result, halt_reason exit_result,
                       if \<not> should_continue exit_result
                       then errors1 @ [halt_reason exit_result] else errors1, sx)
                 else (False, ''Init failed: '' @ init_error init, errors1, s1));
              (enabled_now, errors3, s3) =
                (if continue then
                   let (portfolio_result, sp) = portfolio_run cfg equity s2
                   in if budgets_set portfolio_result
                      then (enabled_bots portfolio_result, errors2, sp)
                      else ([], errors2 @ [if error portfolio_result \<noteq> []
                                           then error portfolio_result
                                           else ''Budgets not set''], sp)
                 else ([], errors2, s2));
              (bots_run, errors4, s4) =
                (if continue \<and> enabled_now \<noteq> [] then
                   let ((ran, exec_errors), se) = execute enabled_now equity s3
                   in (ran, errors3 @ exec_errors, se)
                 else ([], errors3, s3));
              (loop_result, s5) = step_finalize isoformat now bots_run errors4 halt_rsn s4
          in (Inr loop_result, s5))"

subsection \<open>Example inputs\<close>

text \<open>
  Configurations used to run the model: every key missing (all defaults), and settings
  with a daily loss limit of two percent. \<open>no_digits\<close> stands in for the float
  formatting, whose digits no statement below depends on.
\<close>

definition no_bot :: bot_cfg where
  "no_bot = \<lparr> bot_id = None, enabled = None, max_trades_per_day = None,
               max_concurrent_positions = None \<rparr>"

definition default_config :: bots_config where
  "default_config =
     \<lparr> exitbot_enabled = None, api_failure_halt = None, max_daily_loss_halt = None,
       cooloff_minutes = None, portfoliobot_enabled = None,
       momentum_bucket_pct_of_daily_risk = None, options_bucket_pct_of_daily_risk = None,
       crypto_bucket_pct_of_daily_risk = None, per_bot_min_pct_of_daily_risk = None,
       per_bot_max_pct_of_daily_risk = None, momentum_bots = [], optionsbot = no_bot,
       cryptobot = no_bot \<rparr>"

definition default_settings :: settings where
  "default_settings =
     \<lparr> global_max_daily_loss_pct = None, max_api_failures_in_window = None,
       max_price_staleness_seconds = None \<rparr>"

definition two_percent :: settings where
  "two_percent = default_settings\<lparr> global_max_daily_loss_pct := Some (Num 2) \<rparr>"

definition seven_percent :: settings where
  "seven_percent = default_settings\<lparr> global_max_daily_loss_pct := Some (Num 7) \<rparr>"

definition no_digits :: float_text where
  "no_digits spec x = ''#''"

text \<open>A store with a halt set at time 0, and one with five recorded API failures.\<close>

definition halted_store :: store where
  "halted_store = set_halt 0 ''HEALTH_FAIL: API failures (5) >= max (5)'' 60 Map.empty"

definition failing_store :: store where
  "failing_store = [''health.api_failure_count'' \<mapsto> VInt 5]"

text \<open>
  A brokerage whose every call raises, and one whose first call raises and whose second
  returns an account with no equity.
\<close>

definition always_raises :: "nat \<Rightarrow> account_outcome \<times> health_event list" where
  "always_raises k = (Raises (if k < 2 then ''connection refused'' else ''timeout''), [])"


text \<open>An execution service that runs nothing, and a clock text.\<close>

definition no_execution :: execution where
  "no_execution bots equity s = (([], []), s)"

definition stamp :: "int \<Rightarrow> string" where
  "stamp t = ''2024-01-02T00:00:00''"






section \<open>Properties\<close>

subsection \<open>Shared facts about the store\<close>

lemma apply_event_other:
  "k \<noteq> ''health.api_failure_count'' \<Longrightarrow> k \<noteq> ''health.last_api_failure'' \<Longrightarrow>
   k \<noteq> ''health.last_price_tick'' \<Longrightarrow> apply_event ev s k = s k"
  by (cases ev) (simp_all add: record_price_tick_def record_api_failure_def set_state_def Let_def)

lemma apply_events_other:
  "k \<noteq> ''health.api_failure_count'' \<Longrightarrow> k \<noteq> ''health.last_api_failure'' \<Longrightarrow>
   k \<noteq> ''health.last_price_tick'' \<Longrightarrow> apply_events evs s k = s k"
  unfolding apply_events_def
  by (induction evs arbitrary: s) (simp_all add: apply_event_other)

lemma set_halt_active: "set_halt now rsn cooloff s ''halt.active'' = Some (VBool True)"
  by (simp add: set_halt_def set_state_def Let_def)

lemma not_halted_inactive:
  "\<not> fst (is_halted now s) \<Longrightarrow> snd (is_halted now s) ''halt.active'' \<noteq> Some (VBool True)"
  by (auto simp: is_halted_def Let_def get_state_def)

lemma is_halted_empty: "is_halted now Map.empty = (False, Map.empty)"
  by (simp add: is_halted_def clear_if_expired_def get_state_def)

subsection \<open>Rounding\<close>

lemma up_numeral:
  "up (numeral k) x = (if x < 2 then 0 else 1 + up (pred_numeral k) (x / 2))"
  by (simp add: numeral_eq_Suc)

lemma down_numeral:
  "down (numeral k) x = (if 1 \<le> x then 0 else down (pred_numeral k) (2 * x) - 1)"
  by (simp add: numeral_eq_Suc)

lemmas round64_eval =
  round64_def overflow_def exponent_def up_numeral down_numeral pow2_def
  round_half_even_def Let_def

text \<open>
  Some roundings: the doubles nearest to one tenth and to one third, two ties between
  neighbouring doubles, which go to the even one, and a number beyond the largest double.
\<close>

lemma round64_examples:
  "round64 (1 / 10) = Num (3602879701896397 / 2 ^ 55)"
  "round64 (1 / 3) = Num (6004799503160661 / 2 ^ 54)"
  "round64 (2 ^ 53 + 1) = Num (2 ^ 53)"
  "round64 (2 ^ 53 + 3) = Num (2 ^ 53 + 4)"
  "round64 (10 ^ 309) = PInf"
  by (simp_all add: round64_eval)

lemma pow2_pos: "0 < pow2 e"
  by (simp add: pow2_def)

lemma pow2_powr: "pow2 e = 2 powr (real_of_int e)"
  by (simp add: pow2_def powr_int)

lemma pow2_diff: "pow2 (a - b) = pow2 a / pow2 b"
  by (simp add: pow2_powr powr_diff)

lemma pow2_add: "pow2 (a + b) = pow2 a * pow2 b"
  by (simp add: pow2_powr powr_add)

lemma up_bounds:
  "1 \<le> x \<Longrightarrow> x < 2 ^ Suc n \<Longrightarrow> pow2 (up n x) \<le> x \<and> x < 2 * pow2 (up n x)"
proof (induction n arbitrary: x)
  case 0
  then show ?case by (simp add: pow2_def)
next
  case (Suc n)
  show ?case
  proof (cases "x < 2")
    case True
    with Suc.prems show ?thesis by (simp add: pow2_def)
  next
    case False
    with Suc.prems have "1 \<le> x / 2" "x / 2 < 2 ^ Suc n" by simp_all
    from Suc.IH [OF this] False show ?thesis
      by (simp add: pow2_add [of 1] pow2_def [of 1])
  qed
qed

lemma down_ge_one: "1 \<le> y \<Longrightarrow> down n y = 0"
  by (cases n) simp_all

lemma down_bounds:
  "0 < x \<Longrightarrow> x < 1 \<Longrightarrow> pow2 (- int n) \<le> x \<Longrightarrow>
     pow2 (down n x) \<le> x \<and> x < 2 * pow2 (down n x)"
proof (induction n arbitrary: x)
  case 0
  then show ?case by (simp add: pow2_def)
next
  case (Suc n)
  show ?case
  proof (cases "1 \<le> 2 * x")
    case True
    with Suc.prems show ?thesis by (simp add: down_ge_one pow2_def)
  next
    case False
    have "pow2 (- int (Suc n)) = pow2 (- int n - 1)"
      by (rule arg_cong [where f = pow2]) simp
    hence "pow2 (- int (Suc n)) = pow2 (- int n) / 2"
      by (simp add: pow2_diff [of "- int n" 1] pow2_def [of 1])
    with Suc.prems False have "0 < 2 * x" "2 * x < 1" "pow2 (- int n) \<le> 2 * x" by simp_all
    from Suc.IH [OF this] Suc.prems
    show ?thesis using pow2_diff [of "down n (2 * x)" 1] by (simp add: pow2_def [of 1])
  qed
qed

lemma exponent_bounds:
  assumes "pow2 (- 1022) \<le> x" and "x < 2 ^ 1024"
  shows "pow2 (exponent x) \<le> x \<and> x < 2 * pow2 (exponent x)"
proof (cases "1 \<le> x")
  case True
  with up_bounds [of x 1023] assms show ?thesis by (simp add: exponent_def)
next
  case False
  have "0 < x" using assms(1) pow2_pos [of "- 1022"] by linarith
  with down_bounds [of x 1022] assms False show ?thesis by (simp add: exponent_def)
qed

lemma round_half_even_close: "\<bar>real_of_int (round_half_even y) - y\<bar> \<le> 1 / 2"
  unfolding round_half_even_def Let_def by (auto; linarith)

text \<open>
  Rounding a number of the normal range moves it by at most one part in \<open>2 ^ 53\<close>, and
  gives a finite double.
\<close>

lemma round64_error:
  assumes lo: "pow2 (- 1022) \<le> \<bar>x\<bar>" and hi: "\<bar>x\<bar> \<le> 3 * pow2 1022"
  shows "\<exists>r. round64 x = Num r \<and> \<bar>r - x\<bar> \<le> \<bar>x\<bar> / 2 ^ 53"
proof -
  define e where "e = exponent \<bar>x\<bar>"
  define u where "u = pow2 (e - 52)"
  define r where "r = real_of_int (round_half_even (x / u)) * u"
  have x0: "x \<noteq> 0" using lo pow2_pos [of "- 1022"] by auto
  have "\<bar>x\<bar> < 2 ^ 1024" using hi by (simp add: pow2_def)
  from exponent_bounds [OF lo this] have eb: "pow2 e \<le> \<bar>x\<bar>" by (simp add: e_def)
  have upos: "0 < u" by (simp add: u_def pow2_pos)
  have u52: "u = pow2 e / 2 ^ 52" using pow2_diff [of e 52] by (simp add: u_def pow2_def [of 52])
  have "r - x = u * (real_of_int (round_half_even (x / u)) - x / u)"
    using upos by (simp add: r_def field_simps)
  hence "\<bar>r - x\<bar> = u * \<bar>real_of_int (round_half_even (x / u)) - x / u\<bar>"
    using upos by (simp add: abs_mult)
  also have "\<dots> \<le> u * (1 / 2)"
    using round_half_even_close [of "x / u"] upos by (intro mult_left_mono) simp_all
  also have "\<dots> = pow2 e / 2 ^ 53" by (simp add: u52)
  also have "\<dots> \<le> \<bar>x\<bar> / 2 ^ 53" using eb by (simp add: divide_right_mono)
  finally have close: "\<bar>r - x\<bar> \<le> \<bar>x\<bar> / 2 ^ 53" .
  have "\<bar>r\<bar> \<le> \<bar>x\<bar> + \<bar>x\<bar> / 2 ^ 53" using close by linarith
  also have "\<dots> \<le> 3 * pow2 1022 + 3 * pow2 1022 / 2 ^ 53"
    using hi by (intro add_mono divide_right_mono) simp_all
  also have "\<dots> < overflow" by (simp add: pow2_def overflow_def)
  finally have "\<bar>r\<bar> < overflow" .
  hence "\<not> overflow \<le> r" "\<not> r \<le> - overflow" by linarith+
  hence "round64 x = Num r" using x0 by (simp add: round64_def Let_def e_def u_def r_def)
  with close show ?thesis by blast
qed

text \<open>
  One step of a computation: when \<open>a'\<close> stands for \<open>a\<close> with a relative error of at most
  \<open>eps\<close>, the rounded product \<open>c * a'\<close> stands for \<open>c * a\<close> with a relative error of at most
  \<open>eps + 2 / 2 ^ 53\<close>.
\<close>

lemma round64_step:
  assumes near: "\<bar>a' - a\<bar> \<le> eps * \<bar>a\<bar>" and e0: "0 \<le> eps" and e1: "eps \<le> 1 / 2"
      and lo: "2 * pow2 (- 1022) \<le> \<bar>c * a\<bar>" and hi: "\<bar>c * a\<bar> \<le> pow2 1023"
  shows "\<exists>r. round64 (c * a') = Num r \<and> \<bar>r - c * a\<bar> \<le> (eps + 2 / 2 ^ 53) * \<bar>c * a\<bar>"
proof -
  have "c * a' - c * a = c * (a' - a)" by (simp add: algebra_simps)
  hence "\<bar>c * a' - c * a\<bar> = \<bar>c\<bar> * \<bar>a' - a\<bar>" by (simp add: abs_mult)
  also have "\<dots> \<le> \<bar>c\<bar> * (eps * \<bar>a\<bar>)" using near by (intro mult_left_mono) simp_all
  also have "\<dots> = eps * \<bar>c * a\<bar>" by (simp add: abs_mult)
  finally have d: "\<bar>c * a' - c * a\<bar> \<le> eps * \<bar>c * a\<bar>" .
  have half: "eps * \<bar>c * a\<bar> \<le> \<bar>c * a\<bar> / 2"
    using e1 mult_right_mono [of eps "1 / 2" "\<bar>c * a\<bar>"] by simp
  have l: "pow2 (- 1022) \<le> \<bar>c * a'\<bar>" using d half lo by linarith
  have "pow2 1023 = 2 * pow2 1022" by (simp add: pow2_def)
  hence h: "\<bar>c * a'\<bar> \<le> 3 * pow2 1022" using d half hi by linarith
  from round64_error [OF l h] obtain r where
    r: "round64 (c * a') = Num r" "\<bar>r - c * a'\<bar> \<le> \<bar>c * a'\<bar> / 2 ^ 53" by blast
  have "\<bar>c * a'\<bar> \<le> 2 * \<bar>c * a\<bar>" using d half by linarith
  hence "\<bar>c * a'\<bar> / 2 ^ 53 \<le> 2 / 2 ^ 53 * \<bar>c * a\<bar>" by simp
  with r(2) have "\<bar>r - c * a'\<bar> \<le> 2 / 2 ^ 53 * \<bar>c * a\<bar>" by linarith
  with d have "\<bar>r - c * a\<bar> \<le> eps * \<bar>c * a\<bar> + 2 / 2 ^ 53 * \<bar>c * a\<bar>" by linarith
  hence "\<bar>r - c * a\<bar> \<le> (eps + 2 / 2 ^ 53) * \<bar>c * a\<bar>" by (simp add: algebra_simps)
  with r(1) show ?thesis by blast
qed


subsection \<open>The risk helpers\<close>

text \<open>
  The round trip on finite numbers away from the ends of the range: the four roundings
  of \<open>pct / 100\<close>, \<open>base * _\<close>, \<open>_ / base\<close> and \<open>_ * 100\<close> move the percentage by at most
  seven parts in \<open>2 ^ 53\<close>.
\<close>

lemma roundtrip_close:
  assumes b: "1 / 2 ^ 500 \<le> \<bar>b\<bar>" "\<bar>b\<bar> \<le> 2 ^ 1000"
      and p: "1 / 2 ^ 500 \<le> \<bar>p\<bar>" "\<bar>p\<bar> \<le> 100"
  shows "\<exists>r. pct_from_dollars (Num b) (dollars_from_pct (Num b) (Num p)) = Num r
             \<and> \<bar>r - p\<bar> \<le> 7 / 2 ^ 53 * \<bar>p\<bar>"
proof -
  define t where "t = p / 100"
  have b0: "b \<noteq> 0" using b(1) by auto
  have tl: "1 / 2 ^ 507 \<le> \<bar>t\<bar>" using p(1) by (simp add: t_def)
  have th: "\<bar>t\<bar> \<le> 1" using p(2) by (simp add: t_def)
  have t1: "pow2 (- 1022) \<le> \<bar>t\<bar>" using tl by (simp add: pow2_def)
  have t2: "\<bar>t\<bar> \<le> 3 * pow2 1022" using th by (simp add: pow2_def)
  from round64_error [OF t1 t2] obtain p1 where
    p1: "round64 t = Num p1" "\<bar>p1 - t\<bar> \<le> 1 / 2 ^ 53 * \<bar>t\<bar>" by auto
  have btl: "1 / 2 ^ 500 * (1 / 2 ^ 507) \<le> \<bar>b\<bar> * \<bar>t\<bar>"
    using b(1) tl by (intro mult_mono) simp_all
  have bth: "\<bar>b\<bar> * \<bar>t\<bar> \<le> 2 ^ 1000 * 1"
    using b(2) th by (intro mult_mono) simp_all
  have bt1: "2 * pow2 (- 1022) \<le> \<bar>b * t\<bar>" using btl by (simp add: pow2_def abs_mult)
  have bt2: "\<bar>b * t\<bar> \<le> pow2 1023" using bth by (simp add: pow2_def abs_mult)
  from round64_step [OF p1(2) _ _ bt1 bt2] obtain d1 where
    d1: "round64 (b * p1) = Num d1" "\<bar>d1 - b * t\<bar> \<le> 3 / 2 ^ 53 * \<bar>b * t\<bar>" by auto
  have inv: "1 / b * (b * t) = t" using b0 by simp
  have q1: "2 * pow2 (- 1022) \<le> \<bar>1 / b * (b * t)\<bar>"
    unfolding inv using tl by (simp add: pow2_def)
  have q2: "\<bar>1 / b * (b * t)\<bar> \<le> pow2 1023"
    unfolding inv using th by (simp add: pow2_def)
  from round64_step [OF d1(2) _ _ q1 q2, unfolded inv] obtain q where
    q: "round64 (1 / b * d1) = Num q" "\<bar>q - t\<bar> \<le> 5 / 2 ^ 53 * \<bar>t\<bar>" by auto
  have r1: "2 * pow2 (- 1022) \<le> \<bar>100 * t\<bar>" using tl by (simp add: pow2_def)
  have r2: "\<bar>100 * t\<bar> \<le> pow2 1023" using th by (simp add: pow2_def)
  from round64_step [OF q(2) _ _ r1 r2] obtain r where
    r: "round64 (100 * q) = Num r" "\<bar>r - 100 * t\<bar> \<le> 7 / 2 ^ 53 * \<bar>100 * t\<bar>" by auto
  have "pct_from_dollars (Num b) (dollars_from_pct (Num b) (Num p)) = Num r"
    using b0 p1(1) d1(1) q(1) r(1)
    by (simp add: pct_from_dollars_def dollars_from_pct_def t_def mult.commute)
  moreover have "\<bar>r - p\<bar> \<le> 7 / 2 ^ 53 * \<bar>p\<bar>" using r(2) by (simp add: t_def)
  ultimately show ?thesis by blast
qed


text \<open>
  C8, as amended. For a base between \<open>2 ^ -500\<close> and \<open>2 ^ 1000\<close> and a percentage that is 0
  or lies between \<open>2 ^ -500\<close> and 100, converting the percentage to dollars and back gives
  a finite float within a relative error of \<open>2 ^ -50\<close> of the percentage; for a base of
  zero the way back is the guard of \<open>pct_from_dollars\<close> and gives zero whatever the
  percentage was; and zero percent of any finite base is zero dollars.
\<close>

theorem pct_dollars_roundtrip:
  assumes "1 / 2 ^ 500 \<le> b" and "b \<le> 2 ^ 1000"
      and "p = 0 \<or> 1 / 2 ^ 500 \<le> p" and "p \<le> 100"
  shows "(\<exists>r. pct_from_dollars (Num b) (dollars_from_pct (Num b) (Num p)) = Num r
              \<and> \<bar>r - p\<bar> \<le> p / 2 ^ 50)
       \<and> pct_from_dollars (Num 0) (dollars_from_pct (Num 0) (Num p)) = Num 0
       \<and> dollars_from_pct (Num c) (Num 0) = Num 0"
proof (intro conjI)
  show "\<exists>r. pct_from_dollars (Num b) (dollars_from_pct (Num b) (Num p)) = Num r
            \<and> \<bar>r - p\<bar> \<le> p / 2 ^ 50"
  proof (cases "p = 0")
    case True
    then show ?thesis
      by (simp add: pct_from_dollars_def dollars_from_pct_def round64_def)
  next
    case False
    with assms have pp: "1 / 2 ^ 500 \<le> \<bar>p\<bar>" "\<bar>p\<bar> \<le> 100" "0 \<le> p" by auto
    from assms have bb: "1 / 2 ^ 500 \<le> \<bar>b\<bar>" "\<bar>b\<bar> \<le> 2 ^ 1000" by auto
    from roundtrip_close [OF bb pp(1,2)] obtain r where
      r: "pct_from_dollars (Num b) (dollars_from_pct (Num b) (Num p)) = Num r"
         "\<bar>r - p\<bar> \<le> 7 / 2 ^ 53 * \<bar>p\<bar>" by blast
    have "7 / 2 ^ 53 * \<bar>p\<bar> \<le> p / 2 ^ 50" using pp(3) by simp
    with r show ?thesis by auto
  qed
  show "pct_from_dollars (Num 0) (dollars_from_pct (Num 0) (Num p)) = Num 0"
    by (simp add: pct_from_dollars_def)
  show "dollars_from_pct (Num c) (Num 0) = Num 0"
    by (simp add: dollars_from_pct_def round64_def)
qed

text \<open>
  Two round trips: two percent of 10000 comes back as exactly 2, and ten percent of 3
  comes back as 10.000000000000002, one unit in the last place above 10.
\<close>

theorem pct_dollars_roundtrip_witness:
  "(1 / 2 ^ 500 :: real) \<le> 3 \<and> (3 :: real) \<le> 2 ^ 1000
   \<and> ((10 :: real) = 0 \<or> 1 / 2 ^ 500 \<le> (10 :: real)) \<and> (10 :: real) \<le> 100
   \<and> pct_from_dollars (Num 3) (dollars_from_pct (Num 3) (Num 10)) = Num (10 + 1 / 2 ^ 49)
   \<and> \<bar>(10 + 1 / 2 ^ 49) - 10\<bar> \<le> (10 :: real) / 2 ^ 50
   \<and> pct_from_dollars (Num 10000) (dollars_from_pct (Num 10000) (Num 2)) = Num 2
   \<and> dollars_from_pct (Num 10000) (Num 0) = Num 0"
proof -
  have h: "(1 / 2 ^ 500 :: real) \<le> 3" "(3 :: real) \<le> 2 ^ 1000"
          "(10 :: real) = 0 \<or> 1 / 2 ^ 500 \<le> (10 :: real)" "(10 :: real) \<le> 100"
    by simp_all
  have a: "pct_from_dollars (Num 3) (dollars_from_pct (Num 3) (Num 10)) = Num (10 + 1 / 2 ^ 49)"
    by (simp add: pct_from_dollars_def dollars_from_pct_def round64_eval)
  have b: "pct_from_dollars (Num 10000) (dollars_from_pct (Num 10000) (Num 2)) = Num 2"
    by (simp add: pct_from_dollars_def dollars_from_pct_def round64_eval)
  from pct_dollars_roundtrip [OF h, of 10000] a b h show ?thesis by simp
qed

text \<open>
  C8 as stated fails at both ends of the bases it admits. At a base of zero the guard
  answers zero, so fifty percent comes back as zero percent. At the smallest positive
  float, \<open>2 ^ -1074\<close>, thirty percent of the base rounds to zero dollars, and comes back
  as zero percent as well.
\<close>

theorem pct_dollars_roundtrip_counterexample:
  "(0 :: real) \<le> 50 \<and> (50 :: real) \<le> 100 \<and> (0 :: real) \<ge> 0
   \<and> pct_from_dollars (Num 0) (dollars_from_pct (Num 0) (Num 50)) = Num 0
   \<and> (0 :: real) \<le> 30 \<and> (30 :: real) \<le> 100 \<and> (1 / 2 ^ 1074 :: real) \<ge> 0
   \<and> pct_from_dollars (Num (1 / 2 ^ 1074)) (dollars_from_pct (Num (1 / 2 ^ 1074)) (Num 30))
       = Num 0"
  by (simp add: pct_from_dollars_def dollars_from_pct_def round64_eval)

subsection \<open>The halt manager\<close>

text \<open>
  C3, as amended. For every halt record whose expiry \<open>expires\<close> is a readable
  timestamp, a call of \<open>is_halted\<close> at a time strictly after \<open>expires\<close> returns false
  and deletes all four halt keys; every further call, at whatever time, returns false
  again and leaves the store, with no halt key in it, as it is.
\<close>

theorem is_halted_after_expiry:
  assumes "get_state s ''halt.expires_at'' = Some (VTime expires)" and "expires < now"
  shows "fst (is_halted now s) = False
       \<and> no_halt_keys (snd (is_halted now s))
       \<and> is_halted later (snd (is_halted now s)) = (False, snd (is_halted now s))"
  using assms
  by (simp add: is_halted_def clear_if_expired_def clear_halt_def delete_state_def
      get_state_def no_halt_keys_def halt_keys_def)

theorem is_halted_after_expiry_witness:
  "get_state (set_halt 0 ''MAX_DAILY_LOSS'' 60 Map.empty) ''halt.expires_at''
     = Some (VTime 3600000000)
   \<and> (3600000000::int) < 3600000001
   \<and> fst (is_halted 3600000001 (set_halt 0 ''MAX_DAILY_LOSS'' 60 Map.empty)) = False
   \<and> no_halt_keys (snd (is_halted 3600000001 (set_halt 0 ''MAX_DAILY_LOSS'' 60 Map.empty)))"
proof -
  have h: "get_state (set_halt 0 ''MAX_DAILY_LOSS'' 60 Map.empty) ''halt.expires_at''
             = Some (VTime 3600000000)"
    by (simp add: set_halt_def set_state_def get_state_def)
  have l: "(3600000000::int) < 3600000001" by simp
  from is_halted_after_expiry [OF h l] h l show ?thesis by simp
qed

text \<open>
  C3 as stated fails at the instant of expiry itself: a halt set at time 0 with a
  cool-off of 60 minutes expires at 3600000000 microseconds, and \<open>is_halted\<close> called at
  exactly that time still reports the halt and keeps its keys, because
  \<open>clear_if_expired\<close> compares with \<open>>\<close>.
\<close>

theorem is_halted_at_expiry_counterexample:
  "get_state (set_halt 0 ''MAX_DAILY_LOSS'' 60 Map.empty) ''halt.expires_at''
     = Some (VTime 3600000000)
   \<and> (3600000000::int) \<ge> 3600000000
   \<and> fst (is_halted 3600000000 (set_halt 0 ''MAX_DAILY_LOSS'' 60 Map.empty)) = True
   \<and> \<not> no_halt_keys (snd (is_halted 3600000000 (set_halt 0 ''MAX_DAILY_LOSS'' 60 Map.empty)))"
  by (simp add: is_halted_def clear_if_expired_def set_halt_def set_state_def get_state_def
      no_halt_keys_def halt_keys_def)

subsection \<open>The kill switch\<close>

text \<open>
  C1, as amended. With the configuration loaded, the kill switch enabled, no halt active,
  health ok and the loss condition enabled, \<open>ExitBot.run\<close> reports the float
  \<open>pnl = equity - day_start_equity\<close> and trips exactly when \<open>pnl <= -max_loss\<close>, where
  \<open>max_loss\<close> is the float \<open>day_start_equity * (max_daily_loss_pct / 100.0)\<close> that
  \<open>dollars_from_pct\<close> computes from \<open>day_start_equity\<close>, each operation rounded: then and
  only then the result is halted, does not continue, its reason starts with
  \<open>MAX_DAILY_LOSS:\<close> and the store holds an active halt.
\<close>

theorem exitbot_max_daily_loss:
  assumes en: "get_or True (exitbot_enabled config)"
      and nh: "\<not> fst (is_halted now s)"
      and hk: "ok (get_snapshot ft setts now (snd (is_halted now s)))"
      and lh: "get_or True (max_daily_loss_halt config)"
  shows "let r = fst (exitbot_run ft (Inr (config, setts)) hc fl now equity dse s);
             s' = snd (exitbot_run ft (Inr (config, setts)) hc fl now equity dse s);
             max_loss = dmul dse (ddiv (get_or (Num 1) (global_max_daily_loss_pct setts))
                                       (Num 100));
             trip = dle (dsub equity dse) (dneg max_loss)
         in pnl r = dsub equity dse
          \<and> result_is_halted r = trip
          \<and> should_continue r = (\<not> trip)
          \<and> prefix ''MAX_DAILY_LOSS:'' (halt_reason r) = trip
          \<and> (get_state s' ''halt.active'' = Some (VBool True)) = trip"
proof (cases "dle (dsub equity dse)
                (dneg (dmul dse (ddiv (get_or (Num 1) (global_max_daily_loss_pct setts))
                                      (Num 100))))")
  case True
  then show ?thesis
    using en nh hk lh
    by (simp add: exitbot_run_def Let_def case_prod_beta dollars_from_pct_def
        halted_result_def get_state_def apply_events_other set_halt_active
        split: flatten_result.splits)
next
  case False
  then show ?thesis
    using en nh hk lh not_halted_inactive [OF nh]
    by (simp add: exitbot_run_def Let_def case_prod_beta dollars_from_pct_def
        continue_result_def get_state_def)
qed

lemma snapshot_empty_ok:
  "ok (get_snapshot no_digits (default_settings\<lparr> global_max_daily_loss_pct := x \<rparr>) 0 Map.empty)"
  by (simp add: get_snapshot_def default_settings_def get_state_def)

text \<open>
  The run of the specification: day-start equity 10000 and a limit of two percent give
  a \<open>max_loss\<close> of exactly 200; a pnl of -250 trips \<open>MAX_DAILY_LOSS\<close> and a pnl of -150
  does not.
\<close>

theorem exitbot_max_daily_loss_witness:
  "get_or True (exitbot_enabled default_config)
   \<and> \<not> fst (is_halted 0 Map.empty)
   \<and> ok (get_snapshot no_digits two_percent 0 (snd (is_halted 0 Map.empty)))
   \<and> get_or True (max_daily_loss_halt default_config)
   \<and> dollars_from_pct (Num 10000) (Num 2) = Num 200
   \<and> pnl (fst (exitbot_run no_digits (Inr (default_config, two_percent)) False
         (FlattenOk, []) 0 (Num 9750) (Num 10000) Map.empty)) = Num (- 250)
   \<and> result_is_halted (fst (exitbot_run no_digits (Inr (default_config, two_percent)) False
         (FlattenOk, []) 0 (Num 9750) (Num 10000) Map.empty))
   \<and> prefix ''MAX_DAILY_LOSS:'' (halt_reason (fst (exitbot_run no_digits
         (Inr (default_config, two_percent)) False (FlattenOk, []) 0 (Num 9750) (Num 10000)
         Map.empty)))
   \<and> pnl (fst (exitbot_run no_digits (Inr (default_config, two_percent)) False
         (FlattenOk, []) 0 (Num 9850) (Num 10000) Map.empty)) = Num (- 150)
   \<and> \<not> result_is_halted (fst (exitbot_run no_digits (Inr (default_config, two_percent)) False
         (FlattenOk, []) 0 (Num 9850) (Num 10000) Map.empty))"
proof -
  have en: "get_or True (exitbot_enabled default_config)"
    by (simp add: default_config_def)
  have nh: "\<not> fst (is_halted 0 Map.empty)"
    by (simp add: is_halted_empty)
  have hk: "ok (get_snapshot no_digits two_percent 0 (snd (is_halted 0 Map.empty)))"
    by (simp add: is_halted_empty snapshot_empty_ok two_percent_def)
  have lh: "get_or True (max_daily_loss_halt default_config)"
    by (simp add: default_config_def)
  have pc: "get_or (Num 1) (global_max_daily_loss_pct two_percent) = Num 2"
    by (simp add: two_percent_def default_settings_def)
  have ml: "dmul (Num 10000) (ddiv (Num 2) (Num 100)) = Num 200"
    by (simp add: round64_eval)
  have p1: "dsub (Num 9750) (Num 10000) = Num (- 250)"
    by (simp add: round64_eval)
  have p2: "dsub (Num 9850) (Num 10000) = Num (- 150)"
    by (simp add: round64_eval)
  from exitbot_max_daily_loss [OF en nh hk lh, of False "(FlattenOk, [])" "Num 9750" "Num 10000"]
       exitbot_max_daily_loss [OF en nh hk lh, of False "(FlattenOk, [])" "Num 9850" "Num 10000"]
       en nh hk lh pc ml p1 p2
  show ?thesis by (simp add: Let_def dollars_from_pct_def)
qed

text \<open>
  C1 as stated compares the loss with \<open>day_start_equity * max_daily_loss_pct / 100\<close>. With a
  day-start equity of 10000, a limit of seven percent and an equity of 9300, the loss
  is 700 and so is that threshold, so the claim has the halt trip. The program computes
  \<open>10000 * (7 / 100.0)\<close>, which is the float 700.0000000000001: the loss of 700 does not
  reach it, and the run continues without a halt.
\<close>

theorem exitbot_max_daily_loss_counterexample:
  "get_or True (exitbot_enabled default_config)
   \<and> \<not> fst (is_halted 0 Map.empty)
   \<and> ok (get_snapshot no_digits seven_percent 0 (snd (is_halted 0 Map.empty)))
   \<and> get_or True (max_daily_loss_halt default_config)
   \<and> (9300 - 10000 :: real) \<le> - (10000 * 7 / 100)
   \<and> dollars_from_pct (Num 10000) (Num 7) = Num (700 + 1 / 2 ^ 43)
   \<and> pnl (fst (exitbot_run no_digits (Inr (default_config, seven_percent)) False
         (FlattenOk, []) 0 (Num 9300) (Num 10000) Map.empty)) = Num (- 700)
   \<and> \<not> result_is_halted (fst (exitbot_run no_digits (Inr (default_config, seven_percent)) False
         (FlattenOk, []) 0 (Num 9300) (Num 10000) Map.empty))
   \<and> should_continue (fst (exitbot_run no_digits (Inr (default_config, seven_percent)) False
         (FlattenOk, []) 0 (Num 9300) (Num 10000) Map.empty))"
proof -
  have ml: "dmul (Num 10000) (ddiv (Num 7) (Num 100)) = Num (700 + 1 / 2 ^ 43)"
    by (simp add: round64_eval)
  have p: "dsub (Num 9300) (Num 10000) = Num (- 700)"
    by (simp add: round64_eval)
  have hk: "ok (get_snapshot no_digits seven_percent 0 Map.empty)"
    by (simp add: snapshot_empty_ok seven_percent_def)
  have pc: "get_or (Num 1) (global_max_daily_loss_pct seven_percent) = Num 7"
    by (simp add: seven_percent_def default_settings_def)
  show ?thesis
    using ml p hk pc
    by (simp add: exitbot_run_def Let_def case_prod_beta dollars_from_pct_def
        default_config_def is_halted_empty continue_result_def)
qed

text \<open>
  C9. When loading the configuration raises, \<open>ExitBot.run\<close> returns a result that does
  not continue and is halted, with reason \<open>Config load failed: <error>\<close>, and leaves the
  store exactly as it found it: \<open>set_halt\<close> is not called, so \<open>is_halted\<close> on the store
  after the run answers what it answers on the store before it, which is false when no
  halt was there.
\<close>

theorem exitbot_config_failure_not_persisted:
  "exitbot_run ft (Inl e) hc fl now equity dse s
     = (halted_result (''Config load failed: '' @ e) equity 0, s)
   \<and> should_continue (fst (exitbot_run ft (Inl e) hc fl now equity dse s)) = False
   \<and> result_is_halted (fst (exitbot_run ft (Inl e) hc fl now equity dse s)) = True
   \<and> halt_reason (fst (exitbot_run ft (Inl e) hc fl now equity dse s))
       = ''Config load failed: '' @ e
   \<and> is_halted later (snd (exitbot_run ft (Inl e) hc fl now equity dse s)) = is_halted later s
   \<and> fst (is_halted later (snd (exitbot_run ft (Inl e) hc fl now equity dse Map.empty))) = False"
  by (simp add: exitbot_run_def halted_result_def is_halted_empty)

text \<open>
  C10. In the three branches of \<open>ExitBot.run\<close> that halt without comparing the loss
  (the configuration failed to load; a halt is already active; health is not ok and the
  health condition is enabled) the result is halted and its \<open>pnl\<close> field is 0, whatever
  \<open>equity\<close> and \<open>day_start_equity\<close> are.
\<close>

theorem exitbot_other_halts_report_zero_pnl:
  assumes "cfg = Inl e
     \<or> (\<exists>config setts. cfg = Inr (config, setts) \<and> get_or True (exitbot_enabled config)
          \<and> (fst (is_halted now s)
             \<or> (\<not> ok (get_snapshot ft setts now (snd (is_halted now s)))
                \<and> get_or True (api_failure_halt config))))"
  shows "result_is_halted (fst (exitbot_run ft cfg hc fl now equity dse s))
       \<and> \<not> should_continue (fst (exitbot_run ft cfg hc fl now equity dse s))
       \<and> pnl (fst (exitbot_run ft cfg hc fl now equity dse s)) = 0"
  using assms
proof (elim disjE exE conjE)
  assume "cfg = Inl e"
  then show ?thesis by (simp add: exitbot_run_def halted_result_def)
next
  fix config setts
  assume "cfg = Inr (config, setts)" "get_or True (exitbot_enabled config)"
         "fst (is_halted now s)"
  then show ?thesis
    by (simp add: exitbot_run_def Let_def case_prod_beta halted_result_def)
next
  fix config setts
  assume "cfg = Inr (config, setts)" "get_or True (exitbot_enabled config)"
         "\<not> ok (get_snapshot ft setts now (snd (is_halted now s)))"
         "get_or True (api_failure_halt config)"
  then show ?thesis
    by (cases "fst (is_halted now s)"; cases "fst fl")
       (simp_all add: exitbot_run_def Let_def case_prod_beta halted_result_def)
qed

theorem exitbot_other_halts_report_zero_pnl_witness:
  "pnl (fst (exitbot_run no_digits (Inl ''missing bots.yaml'') False (FlattenOk, []) 0
              (Num 9000) (Num 10000) Map.empty)) = 0
   \<and> fst (is_halted 1 halted_store)
   \<and> pnl (fst (exitbot_run no_digits (Inr (default_config, two_percent)) False
              (FlattenOk, []) 1 (Num 9000) (Num 10000) halted_store)) = 0
   \<and> \<not> ok (get_snapshot no_digits two_percent 0 (snd (is_halted 0 failing_store)))
   \<and> pnl (fst (exitbot_run no_digits (Inr (default_config, two_percent)) False
              (FlattenOk, []) 0 (Num 9000) (Num 10000) failing_store)) = 0
   \<and> (9000 - 10000 :: real) \<noteq> 0"
proof -
  have a: "Inl ''missing bots.yaml'' = (Inl ''missing bots.yaml'' :: loaded)
     \<or> (\<exists>config setts. (Inl ''missing bots.yaml'' :: loaded) = Inr (config, setts)
          \<and> get_or True (exitbot_enabled config)
          \<and> (fst (is_halted 0 Map.empty)
             \<or> (\<not> ok (get_snapshot no_digits setts 0 (snd (is_halted 0 Map.empty)))
                \<and> get_or True (api_failure_halt config))))"
    by simp
  have en: "get_or True (exitbot_enabled default_config)"
           "get_or True (api_failure_halt default_config)"
    by (simp_all add: default_config_def)
  have h: "fst (is_halted 1 halted_store)"
    by (simp add: halted_store_def is_halted_def clear_if_expired_def set_halt_def
        set_state_def get_state_def)
  have f: "\<not> ok (get_snapshot no_digits two_percent 0 (snd (is_halted 0 failing_store)))"
    by (simp add: failing_store_def is_halted_def clear_if_expired_def get_snapshot_def
        get_state_def two_percent_def default_settings_def)
  have b: "(Inr (default_config, two_percent) :: loaded) = Inl e
     \<or> (\<exists>config setts. (Inr (default_config, two_percent) :: loaded) = Inr (config, setts)
          \<and> get_or True (exitbot_enabled config)
          \<and> (fst (is_halted 1 halted_store)
             \<or> (\<not> ok (get_snapshot no_digits setts 1 (snd (is_halted 1 halted_store)))
                \<and> get_or True (api_failure_halt config))))" for e
    using en h by simp
  have c: "(Inr (default_config, two_percent) :: loaded) = Inl e
     \<or> (\<exists>config setts. (Inr (default_config, two_percent) :: loaded) = Inr (config, setts)
          \<and> get_or True (exitbot_enabled config)
          \<and> (fst (is_halted 0 failing_store)
             \<or> (\<not> ok (get_snapshot no_digits setts 0 (snd (is_halted 0 failing_store)))
                \<and> get_or True (api_failure_halt config))))" for e
    using en f by simp
  from exitbot_other_halts_report_zero_pnl [OF a]
       exitbot_other_halts_report_zero_pnl [OF b]
       exitbot_other_halts_report_zero_pnl [OF c] h f
  show ?thesis by simp
qed

subsection \<open>Finalization\<close>

text \<open>
  What \<open>_step_finalize\<close> decides when no halt is active, no worker ran and there are
  errors: \<open>FAIL_CLOSED\<close> with success when one of the error texts, in lower case,
  contains \<open>credentials\<close>, \<open>init\<close> or \<open>budgets\<close>, and \<open>ERROR\<close> without success otherwise.
\<close>

lemma step_finalize_errors_only:
  assumes "\<not> fst (is_halted now s)" and "errors \<noteq> []"
  shows "status (fst (step_finalize isoformat now [] errors rsn s))
           = (if is_init_error errors
              then ''FAIL_CLOSED: System failed safely without trading''
              else ''ERROR: '' @ join ''; '' errors)"
    and "success (fst (step_finalize isoformat now [] errors rsn s)) = is_init_error errors"
  using assms by (simp_all add: step_finalize_def Let_def case_prod_beta)

text \<open>
  C2 does not hold of the loop as it runs. Without credentials step 1 fails with the
  error \<open>ALPACA_KEY and ALPACA_SECRET required\<close>. \<open>run_loop\<close> puts that text, as it is, in the
  list of errors, and the text \<open>Init failed: ...\<close> in the halt reason only. The error
  contains none of the three words, so the loop that refused to trade for want of
  credentials, which the specification classifies as \<open>FAIL_CLOSED\<close> with success, ends as
  \<open>ERROR\<close> without success.
\<close>

theorem run_loop_missing_credentials_counterexample:
  "fst (step_initialize no_digits False always_raises ''2024-01-02'' 0 Map.empty)
     = Inr (failed_init ''ALPACA_KEY and ALPACA_SECRET required'')
   \<and> \<not> is_init_error [''ALPACA_KEY and ALPACA_SECRET required'']
   \<and> status (projr (fst (run_loop no_digits (Inr (default_config, default_settings)) False
        always_raises (FlattenOk, []) no_execution ''2024-01-02'' stamp 0 Map.empty)))
       = ''ERROR: ALPACA_KEY and ALPACA_SECRET required''
   \<and> status_label (status (projr (fst (run_loop no_digits
        (Inr (default_config, default_settings)) False always_raises (FlattenOk, [])
        no_execution ''2024-01-02'' stamp 0 Map.empty)))) \<noteq> ''FAIL_CLOSED''
   \<and> \<not> success (projr (fst (run_loop no_digits (Inr (default_config, default_settings)) False
        always_raises (FlattenOk, []) no_execution ''2024-01-02'' stamp 0 Map.empty)))"
proof -
  have i: "fst (step_initialize no_digits False always_raises ''2024-01-02'' 0 Map.empty)
             = Inr (failed_init ''ALPACA_KEY and ALPACA_SECRET required'')"
    by (simp add: step_initialize_def)
  have e: "\<not> is_init_error [''ALPACA_KEY and ALPACA_SECRET required'']"
    by (simp add: is_init_error_def lower_def lower_char_def)
  have h: "\<not> fst (is_halted 0 (record_api_failure 0 Map.empty))"
    by (simp add: is_halted_def clear_if_expired_def record_api_failure_def set_state_def
        get_state_def Let_def)
  have r: "fst (run_loop no_digits (Inr (default_config, default_settings)) False
        always_raises (FlattenOk, []) no_execution ''2024-01-02'' stamp 0 Map.empty)
      = Inr (fst (step_finalize stamp 0 [] [''ALPACA_KEY and ALPACA_SECRET required'']
               ''Init failed: ALPACA_KEY and ALPACA_SECRET required''
               (record_api_failure 0 Map.empty)))"
    by (simp add: run_loop_def step_initialize_def failed_init_def Let_def case_prod_beta)
  from step_finalize_errors_only [OF h, of "[''ALPACA_KEY and ALPACA_SECRET required'']" stamp
         "''Init failed: ALPACA_KEY and ALPACA_SECRET required''"] e i
  show ?thesis by (simp add: r status_label_def)
qed

subsection \<open>The health monitor\<close>

text \<open>
  What \<open>get_snapshot\<close> decides, with no assumption on the configuration: ok holds
  exactly when the failure count is below the limit and it is not the case that a tick
  was recorded and is staler than the threshold.
\<close>

lemma snapshot_ok_exact:
  "ok (get_snapshot ft cfg now s) \<longleftrightarrow>
     int_of_val (get_state s ''health.api_failure_count'')
       < get_or 5 (max_api_failures_in_window cfg)
   \<and> \<not> (truthy (get_state s ''health.last_price_tick'')
        \<and> stale_seconds (get_snapshot ft cfg now s)
            > get_or 15 (max_price_staleness_seconds cfg))"
  by (auto simp: get_snapshot_def Let_def)



subsection \<open>Initialization\<close>















subsection \<open>The allocator\<close>

text \<open>
  The key of a worker's \<open>max_daily_loss\<close> is written for that worker only: it differs from
  the keys of every other worker and from the five other keys of any worker.
\<close>

lemma loss_key_eq [simp]:
  "budget_key x ''max_daily_loss'' = budget_key y ''max_daily_loss'' \<longleftrightarrow> x = y"
  by (simp add: budget_key_def)

lemma loss_key_bots [simp]: "budget_key x ''max_daily_loss'' \<noteq> bots_key y f"
  by (simp add: budget_key_def bots_key_def)

lemma loss_key_risk [simp]:
  "budget_key x ''max_daily_loss'' \<noteq> budget_key y ''max_open_risk''"
proof
  assume "budget_key x ''max_daily_loss'' = budget_key y ''max_open_risk''"
  hence "rev (budget_key x ''max_daily_loss'') = rev (budget_key y ''max_open_risk'')" by simp
  thus False by (simp add: budget_key_def)
qed

lemma loss_key_trades [simp]:
  "budget_key x ''max_daily_loss'' \<noteq> budget_key y ''max_trades_per_day''"
proof
  assume "budget_key x ''max_daily_loss'' = budget_key y ''max_trades_per_day''"
  hence "rev (budget_key x ''max_daily_loss'') = rev (budget_key y ''max_trades_per_day'')"
    by simp
  thus False by (simp add: budget_key_def)
qed

lemma loss_key_positions [simp]:
  "budget_key x ''max_daily_loss'' \<noteq> budget_key y ''max_concurrent_positions''"
proof
  assume "budget_key x ''max_daily_loss'' = budget_key y ''max_concurrent_positions''"
  hence "rev (budget_key x ''max_daily_loss'')
           = rev (budget_key y ''max_concurrent_positions'')" by simp
  thus False by (simp add: budget_key_def)
qed


























end
